theory Spec2Isabelle
  imports Complex_Main
begin

section \<open>Numbers\<close>

text \<open>
  The kernel computes on JavaScript numbers, which are binary64. They are modelled as real
  numbers: \<^verbatim>\<open>Math.min\<close>, \<^verbatim>\<open>Math.max\<close> and \<^verbatim>\<open>Math.sqrt\<close> are \<open>min\<close>, \<open>max\<close> and
  \<open>sqrt\<close>, and an arithmetic step is the real operation. Rounding is not modelled: an
  equation here gives the exact value of a formula, which the program computes rounded at
  every operation. The one operation that leaves the reals from real operands is a
  division by zero, so the quotient of the \<^verbatim>\<open>/\<close> operator is a value of \<open>jsnum\<close>:
  finite, one of the two infinities, or NaN. The vector methods test their divisor against
  zero before they divide; \<^verbatim>\<open>sample\<close> and \<^verbatim>\<open>resize\<close> divide without a test.
\<close>

datatype jsnum = Fin real | PosInf | NegInf | NaN

definition js_div :: "real \<Rightarrow> real \<Rightarrow> jsnum" where
  "js_div a b =
     (if b \<noteq> 0 then Fin (a / b)
      else if 0 < a then PosInf
      else if a < 0 then NegInf
      else NaN)"

section \<open>Vector2D (utils.js)\<close>

text \<open>
  An immutable pair of numbers. The selectors \<open>x_of\<close> and \<open>y_of\<close> are the fields
  \<^verbatim>\<open>x\<close> and \<^verbatim>\<open>y\<close>.
\<close>

datatype Vector2D = Vector2D (x_of: real) (y_of: real)

definition zero_vec :: Vector2D where
  "zero_vec = Vector2D 0 0"

definition add :: "Vector2D \<Rightarrow> Vector2D \<Rightarrow> Vector2D" where
  "add u v = Vector2D (x_of u + x_of v) (y_of u + y_of v)"

definition subtract :: "Vector2D \<Rightarrow> Vector2D \<Rightarrow> Vector2D" where
  "subtract u v = Vector2D (x_of u - x_of v) (y_of u - y_of v)"

definition multiply :: "Vector2D \<Rightarrow> real \<Rightarrow> Vector2D" where
  "multiply u s = Vector2D (x_of u * s) (y_of u * s)"

definition divide_vec :: "Vector2D \<Rightarrow> real \<Rightarrow> Vector2D" where
  \<comment> \<open>\<^verbatim>\<open>if (s === 0) return new Vector2D(0, 0)\<close>\<close>
  "divide_vec u s = (if s = 0 then Vector2D 0 0 else Vector2D (x_of u / s) (y_of u / s))"

definition magnitude :: "Vector2D \<Rightarrow> real" where
  "magnitude u = sqrt (x_of u * x_of u + y_of u * y_of u)"

definition magnitudeSquared :: "Vector2D \<Rightarrow> real" where
  "magnitudeSquared u = x_of u * x_of u + y_of u * y_of u"

definition normalize_vec :: "Vector2D \<Rightarrow> Vector2D" where
  "normalize_vec u =
     (let mag = magnitude u
      in if mag = 0 then Vector2D 0 0 else divide_vec u mag)"

definition dot :: "Vector2D \<Rightarrow> Vector2D \<Rightarrow> real" where
  "dot u v = x_of u * x_of v + y_of u * y_of v"

definition equals_vec :: "Vector2D \<Rightarrow> Vector2D \<Rightarrow> real \<Rightarrow> bool" where
  \<comment> \<open>\<^verbatim>\<open>equals(v, epsilon = 0.0001)\<close>\<close>
  "equals_vec u v epsilon \<longleftrightarrow>
     \<bar>x_of u - x_of v\<bar> < epsilon \<and> \<bar>y_of u - y_of v\<bar> < epsilon"

definition projectOnto :: "Vector2D \<Rightarrow> Vector2D \<Rightarrow> Vector2D" where
  "projectOnto u v =
     (let magSq = magnitudeSquared v
      in if magSq = 0 then Vector2D 0 0 else multiply v (dot u v / magSq))"

section \<open>CubicBezier (bezier-math.js)\<close>

record CubicBezier =
  p0 :: Vector2D
  p1 :: Vector2D
  p2 :: Vector2D
  p3 :: Vector2D

definition evaluate :: "CubicBezier \<Rightarrow> real \<Rightarrow> Vector2D" where
  "evaluate c t0 =
     (let t = max 0 (min 1 t0);
          mt = 1 - t;
          mt2 = mt * mt;
          mt3 = mt2 * mt;
          t2 = t * t;
          t3 = t2 * t;
          b0 = mt3;
          b1 = 3 * mt2 * t;
          b2 = 3 * mt * t2;
          b3 = t3
      in Vector2D
           (b0 * x_of (p0 c) + b1 * x_of (p1 c) + b2 * x_of (p2 c) + b3 * x_of (p3 c))
           (b0 * y_of (p0 c) + b1 * y_of (p1 c) + b2 * y_of (p2 c) + b3 * y_of (p3 c)))"

text \<open>
  \<^verbatim>\<open>evaluate\<close> at the value of a division. \<^verbatim>\<open>Math.max(0, Math.min(1, t))\<close> sends
  \<open>+Infinity\<close> to 1 and \<open>-Infinity\<close> to 0; it leaves NaN as NaN, and then every
  Bernstein weight and both coordinates of the result are NaN: that vector is \<open>None\<close>.
\<close>

definition evaluate_num :: "CubicBezier \<Rightarrow> jsnum \<Rightarrow> Vector2D option" where
  "evaluate_num c t =
     (case t of
        Fin r \<Rightarrow> Some (evaluate c r)
      | PosInf \<Rightarrow> Some (evaluate c 1)
      | NegInf \<Rightarrow> Some (evaluate c 0)
      | NaN \<Rightarrow> None)"

text \<open>
  \<^verbatim>\<open>for (let i = 0; i <= segments; i++) points.push(this.evaluate(i / segments))\<close>,
  for an integer count of segments. The list holds \<open>None\<close> for a point with NaN
  coordinates.
\<close>

function sample_loop ::
  "CubicBezier \<Rightarrow> int \<Rightarrow> int \<Rightarrow> Vector2D option list \<Rightarrow> Vector2D option list" where
  "sample_loop c segments i points =
     (if i \<le> segments
      then sample_loop c segments (i + 1)
             (points @ [evaluate_num c (js_div (of_int i) (of_int segments))])
      else points)"
  by pat_completeness auto
termination
  by (relation "measure (\<lambda>(c, segments, i, points). nat (segments + 1 - i))") auto

definition sample :: "CubicBezier \<Rightarrow> int \<Rightarrow> Vector2D option list" where
  "sample c segments = sample_loop c segments 0 []"

section \<open>SpringPhysics (bezier-math.js)\<close>

text \<open>
  The configuration object of the constructors: a key that is absent is \<open>None\<close>.
  \<^verbatim>\<open>config.k ?? d\<close> is \<open>nullish\<close>.
\<close>

record SpringConfig =
  sc_stiffness :: "real option"
  sc_damping :: "real option"
  sc_mass :: "real option"
  sc_initialPosition :: "Vector2D option"
  sc_maxVelocity :: "real option"
  sc_maxDisplacement :: "real option"
  sc_influence :: "real option"

definition nullish :: "'a option \<Rightarrow> 'a \<Rightarrow> 'a" where
  "nullish v d = (case v of None \<Rightarrow> d | Some a \<Rightarrow> a)"

record SpringPhysics =
  stiffness :: real
  damping :: real
  mass :: real
  position :: Vector2D
  velocity :: Vector2D
  target :: Vector2D
  maxVelocity :: real
  maxDisplacement :: real

definition SpringPhysics_new :: "SpringConfig \<Rightarrow> SpringPhysics" where
  "SpringPhysics_new config =
     (let pos = nullish (sc_initialPosition config) (Vector2D 0 0)
      in \<lparr>stiffness = nullish (sc_stiffness config) 150,
          damping = nullish (sc_damping config) 12,
          mass = nullish (sc_mass config) 1,
          position = pos,
          velocity = Vector2D 0 0,
          target = pos,
          maxVelocity = nullish (sc_maxVelocity config) 2000,
          maxDisplacement = nullish (sc_maxDisplacement config) 500\<rparr>)"

definition SpringPhysics_setTarget :: "SpringPhysics \<Rightarrow> Vector2D \<Rightarrow> SpringPhysics" where
  "SpringPhysics_setTarget s tgt = s\<lparr>target := tgt\<rparr>"

text \<open>
  \<^verbatim>\<open>update(dt)\<close> assigns \<^verbatim>\<open>this.velocity\<close> and \<^verbatim>\<open>this.position\<close> twice each;
  \<open>velocity1\<close>, \<open>velocity2\<close>, \<open>position1\<close> and \<open>position2\<close> are their successive
  values. No other field is assigned. The result is the new state and the returned
  position.
\<close>

definition SpringPhysics_update :: "SpringPhysics \<Rightarrow> real \<Rightarrow> SpringPhysics \<times> Vector2D" where
  "SpringPhysics_update s dt0 =
     (let dt = min dt0 (1 / 30);
          displacement = subtract (position s) (target s);
          springForce = multiply displacement (- stiffness s);
          dampingForce = multiply (velocity s) (- damping s);
          totalForce = add springForce dampingForce;
          acceleration = divide_vec totalForce (mass s);
          velocity1 = add (velocity s) (multiply acceleration dt);
          velocity2 = (if magnitude velocity1 > maxVelocity s
                       then multiply (normalize_vec velocity1) (maxVelocity s)
                       else velocity1);
          position1 = add (position s) (multiply velocity2 dt);
          currentDisp = subtract position1 (target s);
          position2 = (if magnitude currentDisp > maxDisplacement s
                       then add (target s)
                              (multiply (normalize_vec currentDisp) (maxDisplacement s))
                       else position1)
      in (s\<lparr>velocity := velocity2, position := position2\<rparr>, position2))"

definition SpringPhysics_applyImpulse :: "SpringPhysics \<Rightarrow> Vector2D \<Rightarrow> SpringPhysics" where
  "SpringPhysics_applyImpulse s impulse =
     s\<lparr>velocity := add (velocity s) (divide_vec impulse (mass s))\<rparr>"

section \<open>SpringPoint (bezier-math.js)\<close>

record SpringPoint =
  spring :: SpringPhysics
  basePosition :: Vector2D
  influence :: real

definition SpringPoint_new :: "real \<Rightarrow> real \<Rightarrow> SpringConfig \<Rightarrow> SpringPoint" where
  "SpringPoint_new x y config =
     \<lparr>spring = SpringPhysics_new (config\<lparr>sc_initialPosition := Some (Vector2D x y)\<rparr>),
      basePosition = Vector2D x y,
      influence = nullish (sc_influence config) 1.0\<rparr>"

definition SpringPoint_setInputOffset :: "SpringPoint \<Rightarrow> Vector2D \<Rightarrow> SpringPoint" where
  "SpringPoint_setInputOffset pt offset =
     (let scaled = multiply offset (influence pt)
      in pt\<lparr>spring := SpringPhysics_setTarget (spring pt) (add (basePosition pt) scaled)\<rparr>)"

definition SpringPoint_setBasePosition :: "SpringPoint \<Rightarrow> real \<Rightarrow> real \<Rightarrow> SpringPoint" where
  "SpringPoint_setBasePosition pt x y = pt\<lparr>basePosition := Vector2D x y\<rparr>"

section \<open>InteractiveBezier (bezier-math.js)\<close>

text \<open>
  The fields \<^verbatim>\<open>p0\<close> and \<^verbatim>\<open>p3\<close> of an InteractiveBezier are \<open>ib_p0\<close> and \<open>ib_p3\<close>
  here, since \<open>p0\<close> and \<open>p3\<close> name the fields of a curve. \<^verbatim>\<open>config.width || 800\<close>
  is \<open>falsy_or\<close>: an absent or zero width gives the default. The constructor reads
  the clock for \<^verbatim>\<open>lastUpdateTime\<close>; the reading is the parameter \<open>now\<close>.
\<close>

record BezierConfig =
  bc_width :: "real option"
  bc_height :: "real option"
  bc_stiffness :: "real option"
  bc_damping :: "real option"
  bc_mass :: "real option"
  bc_p0 :: "Vector2D option"
  bc_p1 :: "Vector2D option"
  bc_p2 :: "Vector2D option"
  bc_p3 :: "Vector2D option"
  bc_p1Influence :: "real option"
  bc_p2Influence :: "real option"
  bc_curveResolution :: "real option"
  bc_tangentCount :: "real option"
  bc_tangentLength :: "real option"

definition falsy_or :: "real option \<Rightarrow> real \<Rightarrow> real" where
  "falsy_or v d = (case v of None \<Rightarrow> d | Some a \<Rightarrow> if a = 0 then d else a)"

record InteractiveBezier =
  width :: real
  height :: real
  springConfig :: SpringConfig
  ib_p0 :: Vector2D
  ib_p3 :: Vector2D
  springP1 :: SpringPoint
  springP2 :: SpringPoint
  curveResolution :: real
  tangentCount :: real
  tangentLength :: real
  lastUpdateTime :: real

definition InteractiveBezier_new :: "BezierConfig \<Rightarrow> real \<Rightarrow> InteractiveBezier" where
  "InteractiveBezier_new config now =
     (let w = falsy_or (bc_width config) 800;
          h = falsy_or (bc_height config) 600;
          sc = \<lparr>sc_stiffness = Some (nullish (bc_stiffness config) 150),
                sc_damping = Some (nullish (bc_damping config) 12),
                sc_mass = Some (nullish (bc_mass config) 1),
                sc_initialPosition = None,
                sc_maxVelocity = None,
                sc_maxDisplacement = None,
                sc_influence = None\<rparr>;
          margin = 100;
          p1Default = nullish (bc_p1 config) (Vector2D (w * 0.33) (h * 0.25));
          p2Default = nullish (bc_p2 config) (Vector2D (w * 0.66) (h * 0.75))
      in \<lparr>width = w,
          height = h,
          springConfig = sc,
          ib_p0 = nullish (bc_p0 config) (Vector2D margin (h / 2)),
          ib_p3 = nullish (bc_p3 config) (Vector2D (w - margin) (h / 2)),
          springP1 = SpringPoint_new (x_of p1Default) (y_of p1Default)
                       (sc\<lparr>sc_influence := Some (nullish (bc_p1Influence config) 1.0)\<rparr>),
          springP2 = SpringPoint_new (x_of p2Default) (y_of p2Default)
                       (sc\<lparr>sc_influence := Some (nullish (bc_p2Influence config) 0.8)\<rparr>),
          curveResolution = nullish (bc_curveResolution config) 100,
          tangentCount = nullish (bc_tangentCount config) 10,
          tangentLength = nullish (bc_tangentLength config) 40,
          lastUpdateTime = now\<rparr>)"

definition getCurve :: "InteractiveBezier \<Rightarrow> CubicBezier" where
  "getCurve b =
     \<lparr>p0 = ib_p0 b,
      p1 = position (spring (springP1 b)),
      p2 = position (spring (springP2 b)),
      p3 = ib_p3 b\<rparr>"

definition InteractiveBezier_setInputOffset ::
  "InteractiveBezier \<Rightarrow> Vector2D \<Rightarrow> InteractiveBezier" where
  "InteractiveBezier_setInputOffset b offset =
     (let b1 = b\<lparr>springP1 := SpringPoint_setInputOffset (springP1 b) offset\<rparr>
      in b1\<lparr>springP2 := SpringPoint_setInputOffset (springP2 b1) (multiply offset (- 0.6))\<rparr>)"

text \<open>
  \<^verbatim>\<open>resize\<close> divides by the stored width and height without a test. When one of them
  is zero the scale factor is infinite or NaN and so are the coordinates computed from it:
  the result has left the real numbers and is \<open>None\<close>.
\<close>

definition InteractiveBezier_resize ::
  "InteractiveBezier \<Rightarrow> real \<Rightarrow> real \<Rightarrow> InteractiveBezier option" where
  "InteractiveBezier_resize b w h =
     (case (js_div w (width b), js_div h (height b)) of
        (Fin scaleX, Fin scaleY) \<Rightarrow>
          Some (b\<lparr>width := w,
                  height := h,
                  ib_p0 := Vector2D (x_of (ib_p0 b) * scaleX) (y_of (ib_p0 b) * scaleY),
                  ib_p3 := Vector2D (x_of (ib_p3 b) * scaleX) (y_of (ib_p3 b) * scaleY),
                  springP1 := SpringPoint_setBasePosition (springP1 b)
                                (x_of (basePosition (springP1 b)) * scaleX)
                                (y_of (basePosition (springP1 b)) * scaleY),
                  springP2 := SpringPoint_setBasePosition (springP2 b)
                                (x_of (basePosition (springP2 b)) * scaleX)
                                (y_of (basePosition (springP2 b)) * scaleY)\<rparr>)
      | _ \<Rightarrow> None)"

section \<open>The claims' own words, and example values\<close>

text \<open>The claim's words "t clamped into [0,1]", to compare with the code's min and max.\<close>

definition clamped_into_unit :: "real \<Rightarrow> real" where
  "clamped_into_unit t = (if t < 0 then 0 else if 1 < t then 1 else t)"

text \<open>The curve of the spec's concrete scenario.\<close>

definition scenario_curve :: CubicBezier where
  "scenario_curve =
     \<lparr>p0 = Vector2D 0 100, p1 = Vector2D 33 25, p2 = Vector2D 66 75, p3 = Vector2D 100 100\<rparr>"

text \<open>A sequence of \<^verbatim>\<open>update(dt)\<close> calls, one per element of the list.\<close>

fun run_updates :: "SpringPhysics \<Rightarrow> real list \<Rightarrow> SpringPhysics" where
  "run_updates s [] = s"
| "run_updates s (dt # dts) = run_updates (fst (SpringPhysics_update s dt)) dts"

text \<open>
  The steps of \<^verbatim>\<open>update(dt)\<close> in the words of the spec, each on coordinates and
  with the division of real numbers. The time step is \<open>min(dt, 1/30)\<close>. The acceleration
  is \<open>(-stiffness * (position - target) - damping * velocity) / mass\<close>.
\<close>

definition claimed_acceleration :: "SpringPhysics \<Rightarrow> Vector2D" where
  "claimed_acceleration s =
     Vector2D
       ((- stiffness s * (x_of (position s) - x_of (target s))
         - damping s * x_of (velocity s)) / mass s)
       ((- stiffness s * (y_of (position s) - y_of (target s))
         - damping s * y_of (velocity s)) / mass s)"

text \<open>The velocity plus the acceleration times the step.\<close>

definition integrated_velocity :: "SpringPhysics \<Rightarrow> real \<Rightarrow> Vector2D" where
  "integrated_velocity s dt =
     Vector2D (x_of (velocity s) + x_of (claimed_acceleration s) * min dt (1 / 30))
              (y_of (velocity s) + y_of (claimed_acceleration s) * min dt (1 / 30))"

text \<open>
  A vector rescaled to the magnitude \<open>m\<close>: every coordinate is multiplied by
  \<open>m / |v|\<close>. For \<open>m \<ge> 0\<close> the factor is not negative, so the direction is kept.
\<close>

definition rescaled :: "Vector2D \<Rightarrow> real \<Rightarrow> Vector2D" where
  "rescaled v m = Vector2D (m / magnitude v * x_of v) (m / magnitude v * y_of v)"

text \<open>Above \<open>maxVelocity\<close> the velocity is rescaled to \<open>maxVelocity\<close>.\<close>

definition clamped_velocity :: "SpringPhysics \<Rightarrow> real \<Rightarrow> Vector2D" where
  "clamped_velocity s dt =
     (if magnitude (integrated_velocity s dt) > maxVelocity s
      then rescaled (integrated_velocity s dt) (maxVelocity s)
      else integrated_velocity s dt)"

text \<open>The position plus the velocity times the step, and its displacement from the target.\<close>

definition moved_position :: "SpringPhysics \<Rightarrow> real \<Rightarrow> Vector2D" where
  "moved_position s dt =
     Vector2D (x_of (position s) + x_of (clamped_velocity s dt) * min dt (1 / 30))
              (y_of (position s) + y_of (clamped_velocity s dt) * min dt (1 / 30))"

definition displacement_from_target :: "SpringPhysics \<Rightarrow> real \<Rightarrow> Vector2D" where
  "displacement_from_target s dt =
     Vector2D (x_of (moved_position s dt) - x_of (target s))
              (y_of (moved_position s dt) - y_of (target s))"

text \<open>
  Beyond \<open>maxDisplacement\<close> the position is the target plus the displacement rescaled to
  \<open>maxDisplacement\<close>.
\<close>

definition anchored_position :: "SpringPhysics \<Rightarrow> real \<Rightarrow> Vector2D" where
  "anchored_position s dt =
     (if magnitude (displacement_from_target s dt) > maxDisplacement s
      then Vector2D
             (x_of (target s) + x_of (rescaled (displacement_from_target s dt) (maxDisplacement s)))
             (y_of (target s) + y_of (rescaled (displacement_from_target s dt) (maxDisplacement s)))
      else moved_position s dt)"

text \<open>The state that the steps leave, and the position returned.\<close>

definition update_steps :: "SpringPhysics \<Rightarrow> real \<Rightarrow> SpringPhysics \<times> Vector2D" where
  "update_steps s dt =
     (s\<lparr>velocity := clamped_velocity s dt, position := anchored_position s dt\<rparr>,
      anchored_position s dt)"

text \<open>
  The numbers of the program are binary64, which is finite below \<open>2 ^ 1024\<close>. A state
  and a time step are within range when every number of the state is at most
  \<open>2 ^ 100\<close> in absolute value, the mass is at least \<open>2 ^ -100\<close> in absolute value and
  the time step is at least \<open>-(2 ^ 100)\<close>: then no intermediate value of
  \<^verbatim>\<open>update\<close> comes near \<open>2 ^ 1024\<close>, in particular not the sums of squares whose root
  \<^verbatim>\<open>magnitude()\<close> takes.
\<close>

definition within_range :: "SpringPhysics \<Rightarrow> real \<Rightarrow> bool" where
  "within_range s dt \<longleftrightarrow>
     \<bar>stiffness s\<bar> \<le> 2 ^ 100 \<and> \<bar>damping s\<bar> \<le> 2 ^ 100 \<and> 1 / 2 ^ 100 \<le> \<bar>mass s\<bar> \<and>
     \<bar>x_of (position s)\<bar> \<le> 2 ^ 100 \<and> \<bar>y_of (position s)\<bar> \<le> 2 ^ 100 \<and>
     \<bar>x_of (velocity s)\<bar> \<le> 2 ^ 100 \<and> \<bar>y_of (velocity s)\<bar> \<le> 2 ^ 100 \<and>
     \<bar>x_of (target s)\<bar> \<le> 2 ^ 100 \<and> \<bar>y_of (target s)\<bar> \<le> 2 ^ 100 \<and>
     \<bar>maxVelocity s\<bar> \<le> 2 ^ 100 \<and> \<bar>maxDisplacement s\<bar> \<le> 2 ^ 100 \<and>
     - (2 ^ 100) \<le> dt"

definition default_spring_config :: SpringConfig where
  "default_spring_config =
     \<lparr>sc_stiffness = None, sc_damping = None, sc_mass = None, sc_initialPosition = None,
      sc_maxVelocity = None, sc_maxDisplacement = None, sc_influence = None\<rparr>"

definition default_bezier_config :: BezierConfig where
  "default_bezier_config =
     \<lparr>bc_width = None, bc_height = None, bc_stiffness = None, bc_damping = None,
      bc_mass = None, bc_p0 = None, bc_p1 = None, bc_p2 = None, bc_p3 = None,
      bc_p1Influence = None, bc_p2Influence = None, bc_curveResolution = None,
      bc_tangentCount = None, bc_tangentLength = None\<rparr>"

text \<open>A spring built with both rails negative, which the constructor accepts.\<close>

definition negative_rails_spring :: SpringPhysics where
  "negative_rails_spring =
     SpringPhysics_new
       (default_spring_config\<lparr>sc_maxVelocity := Some (- 1), sc_maxDisplacement := Some (- 1)\<rparr>)"

section \<open>Facts about vectors\<close>

lemma magnitude_nonneg: "0 \<le> magnitude u"
  by (simp add: magnitude_def)

lemma magnitude_zero_iff: "magnitude u = 0 \<longleftrightarrow> u = Vector2D 0 0"
proof -
  have "x_of u * x_of u + y_of u * y_of u = 0 \<longleftrightarrow> x_of u = 0 \<and> y_of u = 0"
    by simp
  then show ?thesis
    by (cases u) (simp add: magnitude_def)
qed

lemma magnitudeSquared_zero_iff: "magnitudeSquared u = 0 \<longleftrightarrow> magnitude u = 0"
  by (simp add: magnitudeSquared_def magnitude_def)

lemma magnitude_multiply: "magnitude (multiply u s) = \<bar>s\<bar> * magnitude u"
proof -
  have "x_of u * s * (x_of u * s) + y_of u * s * (y_of u * s)
        = (s * s) * (x_of u * x_of u + y_of u * y_of u)"
    by (simp add: algebra_simps)
  then show ?thesis
    by (simp add: magnitude_def multiply_def real_sqrt_mult)
qed

lemma magnitude_normalize: "magnitude u \<noteq> 0 \<Longrightarrow> magnitude (normalize_vec u) = 1"
proof -
  assume nz: "magnitude u \<noteq> 0"
  define r where "r = magnitude u"
  have rpos: "0 < r" using nz magnitude_nonneg [of u] by (simp add: r_def)
  have "divide_vec u r = multiply u (1 / r)"
    using rpos by (simp add: divide_vec_def multiply_def)
  then have "magnitude (divide_vec u r) = \<bar>1 / r\<bar> * r"
    by (simp add: magnitude_multiply r_def)
  also have "\<dots> = 1" using rpos by simp
  finally show ?thesis using nz by (simp add: normalize_vec_def r_def)
qed

lemma magnitude_rescaled:
  "magnitude u \<noteq> 0 \<Longrightarrow> 0 \<le> m \<Longrightarrow> magnitude (multiply (normalize_vec u) m) = m"
  by (simp add: magnitude_multiply magnitude_normalize)

section \<open>Numeric degeneracies of Vector2D\<close>

text \<open>
  Claim C7. For every vector \<open>v\<close>: \<open>v.divide(0)\<close> is the zero vector; \<open>normalize()\<close> of
  the zero vector is the zero vector; and \<open>v.projectOnto(w)\<close> is the zero vector whenever
  \<open>w\<close> has length zero. Each of the three is a value, never a failure.
\<close>

theorem degenerate_vector_ops_zero:
  "divide_vec v 0 = zero_vec \<and>
   normalize_vec zero_vec = zero_vec \<and>
   (magnitude w = 0 \<longrightarrow> projectOnto v w = zero_vec)"
  by (simp add: divide_vec_def normalize_vec_def projectOnto_def zero_vec_def
      magnitudeSquared_zero_iff magnitude_def)

theorem degenerate_vector_ops_zero_witness:
  "divide_vec (Vector2D 3 4) 0 = zero_vec \<and>
   normalize_vec zero_vec = zero_vec \<and>
   magnitude (Vector2D 0 0) = 0 \<and>
   projectOnto (Vector2D 3 4) (Vector2D 0 0) = zero_vec"
proof -
  have h: "magnitude (Vector2D 0 0) = 0"
    by (simp add: magnitude_def)
  show ?thesis
    using h degenerate_vector_ops_zero [of "Vector2D 3 4" "Vector2D 0 0"] by simp
qed

section \<open>Curve evaluation\<close>

lemma evaluate_at_0: "evaluate c 0 = p0 c"
  by (simp add: evaluate_def)

lemma evaluate_at_1: "evaluate c 1 = p3 c"
  by (simp add: evaluate_def)

lemma evaluate_clamps: "evaluate c t = evaluate c (max 0 (min 1 t))"
  by (simp add: evaluate_def)

lemma clamped_into_unit_eq: "clamped_into_unit t = max 0 (min 1 t)"
  by (simp add: clamped_into_unit_def)

text \<open>
  Claim C5. For every curve, \<open>evaluate(0)\<close> is \<open>p0\<close> and \<open>evaluate(1)\<close> is \<open>p3\<close>; and
  for every real \<open>t\<close> (so also outside [0,1]) \<open>evaluate(t)\<close> is \<open>evaluate\<close> of \<open>t\<close>
  clamped into [0,1]. \<open>evaluate\<close> is a total function into vectors: there is no error
  value. The equalities are exact, hence within every epsilon.
\<close>

theorem evaluate_endpoints_and_clamp:
  "evaluate c 0 = p0 c \<and> evaluate c 1 = p3 c \<and>
   evaluate c t = evaluate c (clamped_into_unit t)"
proof -
  have "evaluate c t = evaluate c (clamped_into_unit t)"
    using evaluate_clamps [of c t] by (simp only: clamped_into_unit_eq)
  then show ?thesis
    by (simp add: evaluate_at_0 evaluate_at_1)
qed

text \<open>
  Claim C4, as the code has it. For the curve with control points (0,100), (33,25),
  (66,75), (100,100), \<open>evaluate(0.5)\<close> is exactly (49.625, 62.5): the Bernstein weights
  at 0.5 are 1/8, 3/8, 3/8, 1/8.
\<close>

theorem scenario_evaluate_half:
  "evaluate \<lparr>p0 = Vector2D 0 100, p1 = Vector2D 33 25, p2 = Vector2D 66 75,
             p3 = Vector2D 100 100\<rparr> 0.5 = Vector2D 49.625 62.5"
  by (simp add: evaluate_def)

text \<open>
  The value (49.5, 68.75) of the claim is not within 0.01 of the result, in either
  coordinate.
\<close>

theorem scenario_evaluate_half_counterexample:
  "\<not> \<bar>x_of (evaluate scenario_curve 0.5) - 49.5\<bar> \<le> 0.01 \<and>
   \<not> \<bar>y_of (evaluate scenario_curve 0.5) - 68.75\<bar> \<le> 0.01 \<and>
   \<not> equals_vec (evaluate scenario_curve 0.5) (Vector2D 49.5 68.75) 0.01"
  by (simp add: evaluate_def scenario_curve_def equals_vec_def)

section \<open>Sampling\<close>

lemma sample_loop_eq:
  "sample_loop c n i pts =
     pts @ map (\<lambda>k. evaluate_num c (js_div (of_int k) (of_int n))) [i..n]"
proof (induction c n i pts rule: sample_loop.induct)
  case (1 c segments i points)
  show ?case
  proof (cases "i \<le> segments")
    case True
    then have "[i..segments] = i # [i + 1..segments]"
      by (simp add: upto_rec1)
    with True 1 show ?thesis
      by (simp del: sample_loop.simps add: sample_loop.simps [of c segments i points])
  next
    case False
    then show ?thesis by simp
  qed
qed

lemma sample_eq:
  "sample c n = map (\<lambda>k. evaluate_num c (js_div (of_int k) (of_int n))) [0..n]"
  by (simp add: sample_def sample_loop_eq del: sample_loop.simps)

lemma sample_length: "length (sample c n) = nat (n + 1)"
  by (simp add: sample_eq)

lemma sample_nth:
  assumes "0 \<le> i" "i \<le> n" "n \<noteq> 0"
  shows "sample c n ! nat i = Some (evaluate c (of_int i / of_int n))"
proof -
  have "nat i < length [0..n]" using assms by simp
  moreover have "[0..n] ! nat i = i" using assms by (simp add: nth_upto)
  ultimately show ?thesis
    using assms by (simp add: sample_eq evaluate_num_def js_div_def)
qed

lemma sample_nth_num:
  assumes "0 \<le> i" "i \<le> n"
  shows "sample c n ! nat i = evaluate_num c (js_div (of_int i) (of_int n))"
proof -
  have "nat i < length [0..n]" using assms by simp
  moreover have "[0..n] ! nat i = i" using assms by simp
  ultimately show ?thesis
    by (simp add: sample_eq)
qed

lemma sample_zero: "sample c 0 = [None]"
  by (simp add: sample_def evaluate_num_def js_div_def)

text \<open>
  Claim C8, as the code has it. For every curve and every integer \<open>n \<ge> 0\<close>,
  \<open>sample(n)\<close> is a list of exactly \<open>n + 1\<close> points whose element \<open>i\<close> is
  \<open>evaluate\<close> at the quotient \<open>i / n\<close> of the code; and for \<open>n \<ge> 1\<close> every
  quotient is the real \<open>i / n\<close>, the first element is \<open>evaluate(0)\<close> and the last is
  \<open>evaluate(1)\<close>. \<open>sample\<close> is a function of the curve and \<open>n\<close> alone, so a
  repeated call returns the same list.
\<close>

theorem sample_points:
  assumes "0 \<le> n"
  shows "length (sample c n) = nat n + 1 \<and>
         (\<forall>i. 0 \<le> i \<and> i \<le> n \<longrightarrow>
            sample c n ! nat i = evaluate_num c (js_div (of_int i) (of_int n))) \<and>
         (1 \<le> n \<longrightarrow>
            (\<forall>i. 0 \<le> i \<and> i \<le> n \<longrightarrow>
               sample c n ! nat i = Some (evaluate c (of_int i / of_int n))) \<and>
            sample c n ! 0 = Some (evaluate c 0) \<and>
            sample c n ! nat n = Some (evaluate c 1))"
proof -
  have a: "length (sample c n) = nat n + 1"
    using assms by (simp add: sample_length nat_add_distrib)
  have b: "\<forall>i. 0 \<le> i \<and> i \<le> n \<longrightarrow>
            sample c n ! nat i = evaluate_num c (js_div (of_int i) (of_int n))"
    by (simp add: sample_nth_num)
  have c: "(\<forall>i. 0 \<le> i \<and> i \<le> n \<longrightarrow>
               sample c n ! nat i = Some (evaluate c (of_int i / of_int n))) \<and>
            sample c n ! 0 = Some (evaluate c 0) \<and>
            sample c n ! nat n = Some (evaluate c 1)" if n1: "1 \<le> n"
  proof -
    have n0: "n \<noteq> 0" using n1 by simp
    have c0: "sample c n ! 0 = Some (evaluate c 0)"
      using sample_nth [of 0 n c] n1 by simp
    have c1: "sample c n ! nat n = Some (evaluate c 1)"
      using sample_nth [of n n c] n1 by simp
    from n0 c0 c1 show ?thesis by (simp add: sample_nth)
  qed
  from a b c show ?thesis by blast
qed

theorem sample_points_witness:
  "(0::int) \<le> 2 \<and> (1::int) \<le> 2 \<and> length (sample scenario_curve 2) = 3 \<and>
   sample scenario_curve 2 ! 1 = Some (evaluate scenario_curve (1 / 2)) \<and>
   sample scenario_curve 2 ! 0 = Some (evaluate scenario_curve 0) \<and>
   sample scenario_curve 2 ! 2 = Some (evaluate scenario_curve 1)"
proof -
  have h: "(0::int) \<le> 2" and h1: "(1::int) \<le> 2" by simp_all
  note t = sample_points [OF h, of scenario_curve]
  from t h1 have "0 \<le> (1::int) \<and> (1::int) \<le> 2 \<longrightarrow>
      sample scenario_curve 2 ! nat 1 = Some (evaluate scenario_curve (of_int 1 / of_int 2))"
    by blast
  then have mid: "sample scenario_curve 2 ! 1 = Some (evaluate scenario_curve (1 / 2))"
    by simp
  from t h1 mid show ?thesis by simp
qed

text \<open>
  At \<open>n = 0\<close> the loop runs once and divides 0 by 0: the one point of \<open>sample(0)\<close> has
  NaN coordinates. It is neither \<open>evaluate(0)\<close> nor \<open>evaluate(1)\<close>.
\<close>

theorem sample_zero_counterexample:
  "sample scenario_curve 0 = [None] \<and>
   \<not> (length (sample scenario_curve 0) = 0 + 1 \<and>
      sample scenario_curve 0 ! 0 = Some (evaluate scenario_curve 0) \<and>
      last (sample scenario_curve 0) = Some (evaluate scenario_curve 1))"
  by (simp add: sample_zero)

section \<open>The spring integrator\<close>

lemma default_spring:
  "SpringPhysics_new default_spring_config =
     \<lparr>stiffness = 150, damping = 12, mass = 1, position = Vector2D 0 0,
      velocity = Vector2D 0 0, target = Vector2D 0 0, maxVelocity = 2000,
      maxDisplacement = 500\<rparr>"
  by (simp add: SpringPhysics_new_def default_spring_config_def nullish_def Let_def)

lemma rescale_eq:
  "multiply (normalize_vec u) m
   = Vector2D (m / magnitude u * x_of u) (m / magnitude u * y_of u)"
proof (cases "magnitude u = 0")
  case True
  then have "u = Vector2D 0 0" by (simp add: magnitude_zero_iff)
  then show ?thesis by (simp add: normalize_vec_def multiply_def magnitude_def)
next
  case False
  then show ?thesis
    by (simp add: normalize_vec_def Let_def multiply_def divide_vec_def)
qed

lemma acceleration_eq:
  assumes "mass s \<noteq> 0"
  shows "divide_vec (add (multiply (subtract (position s) (target s)) (- stiffness s))
                      (multiply (velocity s) (- damping s))) (mass s)
         = Vector2D
             ((- stiffness s * (x_of (position s) - x_of (target s))
               - damping s * x_of (velocity s)) / mass s)
             ((- stiffness s * (y_of (position s) - y_of (target s))
               - damping s * y_of (velocity s)) / mass s)"
proof -
  have "(x_of (position s) - x_of (target s)) * - stiffness s + x_of (velocity s) * - damping s
        = - stiffness s * (x_of (position s) - x_of (target s)) - damping s * x_of (velocity s)"
    and "(y_of (position s) - y_of (target s)) * - stiffness s + y_of (velocity s) * - damping s
        = - stiffness s * (y_of (position s) - y_of (target s)) - damping s * y_of (velocity s)"
    by (simp_all add: algebra_simps)
  then show ?thesis
    using assms by (simp add: divide_vec_def add_def multiply_def subtract_def)
qed

lemma sqrt_62500: "sqrt 62500 = 250"
  by (rule real_sqrt_unique) simp_all

lemma sqrt_330625_36: "sqrt (330625 / 36) = 575 / 6"
  by (rule real_sqrt_unique) (simp_all add: power2_eq_square)

lemma sqrt_6001_60: "sqrt (36012001 / 3600) = 6001 / 60"
  by (rule real_sqrt_unique) (simp_all add: power2_eq_square)

lemma rescaled_eq: "multiply (normalize_vec u) m = rescaled u m"
  by (simp add: rescale_eq rescaled_def)

lemma within_range_mass: "within_range s dt \<Longrightarrow> mass s \<noteq> 0"
proof
  assume r: "within_range s dt" and z: "mass s = 0"
  from r have "1 / 2 ^ 100 \<le> \<bar>mass s\<bar>" by (simp add: within_range_def)
  with z show False by simp
qed

lemma acceleration_claimed:
  "mass s \<noteq> 0 \<Longrightarrow>
   divide_vec (add (multiply (subtract (position s) (target s)) (- stiffness s))
                   (multiply (velocity s) (- damping s))) (mass s)
   = claimed_acceleration s"
  using acceleration_eq [of s] by (simp add: claimed_acceleration_def)

text \<open>
  For a rail that is not negative, \<open>rescaled\<close> is what the words say: the magnitude of
  the rail, in the direction of the vector.
\<close>

lemma rescaled_meaning:
  assumes "0 \<le> m" and "m < magnitude v"
  shows "magnitude (rescaled v m) = m \<and>
         rescaled v m = multiply v (m / magnitude v) \<and> 0 \<le> m / magnitude v"
proof -
  have nz: "magnitude v \<noteq> 0" using assms by simp
  have "magnitude (rescaled v m) = m"
    using magnitude_rescaled [OF nz assms(1)] by (simp only: rescaled_eq)
  moreover have "rescaled v m = multiply v (m / magnitude v)"
    by (simp add: rescaled_def multiply_def)
  moreover have "0 \<le> m / magnitude v"
    using assms(1) magnitude_nonneg [of v] by simp
  ultimately show ?thesis by simp
qed

text \<open>
  Within range the two sums of squares of which \<^verbatim>\<open>update\<close> takes the root stay far
  below \<open>2 ^ 1024\<close>, as every smaller intermediate value does.
\<close>

lemma coordinate_le_magnitude: "\<bar>x_of v\<bar> \<le> magnitude v" "\<bar>y_of v\<bar> \<le> magnitude v"
proof -
  have x: "\<bar>x_of v\<bar>\<^sup>2 \<le> x_of v * x_of v + y_of v * y_of v"
    and y: "\<bar>y_of v\<bar>\<^sup>2 \<le> x_of v * x_of v + y_of v * y_of v"
    by (simp_all add: power2_eq_square)
  show "\<bar>x_of v\<bar> \<le> magnitude v"
    unfolding magnitude_def using x by (rule real_le_rsqrt)
  show "\<bar>y_of v\<bar> \<le> magnitude v"
    unfolding magnitude_def using y by (rule real_le_rsqrt)
qed

lemma rescaled_coordinate_le:
  assumes "0 \<le> m"
  shows "\<bar>x_of (rescaled v m)\<bar> \<le> m" "\<bar>y_of (rescaled v m)\<bar> \<le> m"
proof -
  have k: "\<bar>c\<bar> \<le> magnitude v \<Longrightarrow> \<bar>m / magnitude v * c\<bar> \<le> m" for c
  proof -
    assume c: "\<bar>c\<bar> \<le> magnitude v"
    show ?thesis
    proof (cases "magnitude v = 0")
      case True
      then show ?thesis using assms by simp
    next
      case False
      then have p: "0 < magnitude v" using magnitude_nonneg [of v] by simp
      have "\<bar>m / magnitude v * c\<bar> = m * (\<bar>c\<bar> / magnitude v)"
        using assms p by (simp add: abs_mult)
      also have "\<dots> \<le> m * 1"
        using assms p c by (intro mult_left_mono) simp_all
      finally show ?thesis by simp
    qed
  qed
  show "\<bar>x_of (rescaled v m)\<bar> \<le> m" "\<bar>y_of (rescaled v m)\<bar> \<le> m"
    unfolding rescaled_def Vector2D.sel
    by (rule k [OF coordinate_le_magnitude(1)], rule k [OF coordinate_le_magnitude(2)])
qed


lemma abs_product_le: "\<bar>a\<bar> \<le> A \<Longrightarrow> \<bar>b\<bar> \<le> C \<Longrightarrow> \<bar>a * b\<bar> \<le> A * (C::real)"
proof -
  assume a: "\<bar>a\<bar> \<le> A" and b: "\<bar>b\<bar> \<le> C"
  have "\<bar>a\<bar> * \<bar>b\<bar> \<le> A * C"
    using a b by (intro mult_mono) simp_all
  then show ?thesis by (simp add: abs_mult)
qed

lemma square_sum_le:
  "\<bar>a\<bar> \<le> A \<Longrightarrow> \<bar>b\<bar> \<le> A \<Longrightarrow> a * a + b * b \<le> 2 * (A * (A::real))"
proof -
  assume a: "\<bar>a\<bar> \<le> A" and b: "\<bar>b\<bar> \<le> A"
  have "\<bar>a * a\<bar> \<le> A * A" "\<bar>b * b\<bar> \<le> A * A"
    using a b by (simp_all only: abs_product_le)
  then show ?thesis by simp
qed

lemma acceleration_coordinate_le:
  fixes k p t c v m B :: real
  assumes "1 \<le> B" "\<bar>k\<bar> \<le> B" "\<bar>p\<bar> \<le> B" "\<bar>t\<bar> \<le> B" "\<bar>c\<bar> \<le> B" "\<bar>v\<bar> \<le> B"
    and "1 / B \<le> \<bar>m\<bar>"
  shows "\<bar>(- k * (p - t) - c * v) / m\<bar> \<le> 3 * B ^ 3"
proof -
  have d: "\<bar>p - t\<bar> \<le> 2 * B" using assms by simp
  have "\<bar>- k\<bar> \<le> B" using assms by simp
  then have kd: "\<bar>- k * (p - t)\<bar> \<le> B * (2 * B)" using d by (rule abs_product_le)
  have cv: "\<bar>c * v\<bar> \<le> B * B" using assms by (simp only: abs_product_le)
  have n: "\<bar>- k * (p - t) - c * v\<bar> \<le> 3 * (B * B)"
    using kd cv by simp
  have mpos: "0 < \<bar>m\<bar>"
  proof -
    have "0 < 1 / B" using assms(1) by simp
    then show ?thesis using assms(7) by linarith
  qed
  have "1 \<le> B * \<bar>m\<bar>"
    using assms(1,7) by (simp add: field_simps)
  then have im: "1 / \<bar>m\<bar> \<le> B"
    using mpos by (simp add: field_simps)
  have "\<bar>(- k * (p - t) - c * v) * (1 / m)\<bar> \<le> 3 * (B * B) * B"
    using n im by (intro abs_product_le) (simp_all add: abs_divide)
  then have "\<bar>(- k * (p - t) - c * v) / m\<bar> \<le> 3 * (B * B) * B"
    by (simp only: times_divide_eq_right mult_1_right)
  also have "3 * (B * B) * B = 3 * B ^ 3"
    by (simp add: power3_eq_cube)
  finally show ?thesis .
qed

lemma step_abs_le: "- B \<le> dt \<Longrightarrow> 1 \<le> B \<Longrightarrow> \<bar>min dt (1 / 30)\<bar> \<le> (B::real)"
  by (simp add: min_def abs_le_iff)

lemma within_range_finite:
  assumes r: "within_range s dt" and v: "0 \<le> maxVelocity s"
  shows "magnitudeSquared (integrated_velocity s dt) \<le> 2 ^ 805"
    and "magnitudeSquared (displacement_from_target s dt) \<le> 2 ^ 1007"
proof -
  define B :: real where "B = 2 ^ 100"
  have B1: "1 \<le> B" by (simp add: B_def)
  have b: "\<bar>stiffness s\<bar> \<le> B" "\<bar>damping s\<bar> \<le> B" "1 / B \<le> \<bar>mass s\<bar>"
    "\<bar>x_of (position s)\<bar> \<le> B" "\<bar>y_of (position s)\<bar> \<le> B"
    "\<bar>x_of (velocity s)\<bar> \<le> B" "\<bar>y_of (velocity s)\<bar> \<le> B"
    "\<bar>x_of (target s)\<bar> \<le> B" "\<bar>y_of (target s)\<bar> \<le> B"
    "\<bar>maxVelocity s\<bar> \<le> B" "- B \<le> dt"
    using r by (simp_all add: within_range_def B_def)
  define h where "h = min dt (1 / 30)"
  have h: "\<bar>h\<bar> \<le> B" unfolding h_def using b(11) B1 by (rule step_abs_le)
  have ax: "\<bar>x_of (claimed_acceleration s)\<bar> \<le> 3 * B ^ 3"
    unfolding claimed_acceleration_def Vector2D.sel
    using B1 b(1) b(4) b(8) b(2) b(6) b(3) by (rule acceleration_coordinate_le)
  have ay: "\<bar>y_of (claimed_acceleration s)\<bar> \<le> 3 * B ^ 3"
    unfolding claimed_acceleration_def Vector2D.sel
    using B1 b(1) b(5) b(9) b(2) b(7) b(3) by (rule acceleration_coordinate_le)
  have B4: "B \<le> B ^ 4" using B1 by (simp add: self_le_power)
  have B5: "B \<le> B ^ 5" using B1 by (simp add: self_le_power)
  have axh: "\<bar>x_of (claimed_acceleration s) * h\<bar> \<le> 3 * B ^ 3 * B"
    using ax h by (rule abs_product_le)
  have ayh: "\<bar>y_of (claimed_acceleration s) * h\<bar> \<le> 3 * B ^ 3 * B"
    using ay h by (rule abs_product_le)
  have p4: "3 * B ^ 3 * B = 3 * B ^ 4" by (simp add: power4_eq_xxxx power3_eq_cube)
  have v1x: "\<bar>x_of (integrated_velocity s dt)\<bar> \<le> 4 * B ^ 4"
    using axh b(6) B4 by (simp add: integrated_velocity_def h_def [symmetric] p4)
  have v1y: "\<bar>y_of (integrated_velocity s dt)\<bar> \<le> 4 * B ^ 4"
    using ayh b(7) B4 by (simp add: integrated_velocity_def h_def [symmetric] p4)
  have "magnitudeSquared (integrated_velocity s dt) \<le> 2 * (4 * B ^ 4 * (4 * B ^ 4))"
    unfolding magnitudeSquared_def using v1x v1y by (rule square_sum_le)
  also have "\<dots> = 2 ^ 805" by (simp add: B_def)
  finally show "magnitudeSquared (integrated_velocity s dt) \<le> 2 ^ 805" .
  have mv: "maxVelocity s \<le> 4 * B ^ 4" using b(10) B4 by simp
  have v2x: "\<bar>x_of (clamped_velocity s dt)\<bar> \<le> 4 * B ^ 4"
    using v1x rescaled_coordinate_le(1) [OF v, of "integrated_velocity s dt"] mv
    by (simp add: clamped_velocity_def)
  have v2y: "\<bar>y_of (clamped_velocity s dt)\<bar> \<le> 4 * B ^ 4"
    using v1y rescaled_coordinate_le(2) [OF v, of "integrated_velocity s dt"] mv
    by (simp add: clamped_velocity_def)
  have v2xh: "\<bar>x_of (clamped_velocity s dt) * h\<bar> \<le> 4 * B ^ 4 * B"
    using v2x h by (rule abs_product_le)
  have v2yh: "\<bar>y_of (clamped_velocity s dt) * h\<bar> \<le> 4 * B ^ 4 * B"
    using v2y h by (rule abs_product_le)
  have p5: "4 * B ^ 4 * B = 4 * B ^ 5" by (simp add: power_Suc2 [symmetric] del: power_Suc)
  have dx: "\<bar>x_of (displacement_from_target s dt)\<bar> \<le> 6 * B ^ 5"
    using v2xh b(4) b(8) B5
    by (simp add: displacement_from_target_def moved_position_def h_def [symmetric] p5)
  have dy: "\<bar>y_of (displacement_from_target s dt)\<bar> \<le> 6 * B ^ 5"
    using v2yh b(5) b(9) B5
    by (simp add: displacement_from_target_def moved_position_def h_def [symmetric] p5)
  have "magnitudeSquared (displacement_from_target s dt) \<le> 2 * (6 * B ^ 5 * (6 * B ^ 5))"
    unfolding magnitudeSquared_def using dx dy by (rule square_sum_le)
  also have "\<dots> \<le> 2 ^ 1007" by (simp add: B_def)
  finally show "magnitudeSquared (displacement_from_target s dt) \<le> 2 ^ 1007" .
qed

lemma default_spring_in_range:
  "within_range (SpringPhysics_setTarget (SpringPhysics_new default_spring_config) (Vector2D 100 0))
     (1 / 60)"
  by (simp add: within_range_def SpringPhysics_setTarget_def default_spring)

lemma moving_spring_steps:
  "update_steps
     (SpringPhysics_setTarget (SpringPhysics_new default_spring_config) (Vector2D 100 0)) (1 / 60)
   = ((SpringPhysics_setTarget (SpringPhysics_new default_spring_config) (Vector2D 100 0))
        \<lparr>velocity := Vector2D 250 0, position := Vector2D (25 / 6) 0\<rparr>, Vector2D (25 / 6) 0)"
  by (simp add: update_steps_def integrated_velocity_def claimed_acceleration_def
      rescaled_def clamped_velocity_def moved_position_def displacement_from_target_def
      anchored_position_def magnitude_def SpringPhysics_setTarget_def default_spring
      sqrt_62500 sqrt_330625_36)

text \<open>
  Claim C1, as the code has it. For every spring state and time step within range whose
  \<open>maxVelocity\<close> and \<open>maxDisplacement\<close> are not negative, \<open>update(dt)\<close> performs the
  steps in their order: the state it leaves and the position it returns are those of
  \<open>update_steps\<close>, and the position returned is the position stored.
\<close>

theorem update_performs_steps:
  assumes "within_range s dt" and "0 \<le> maxVelocity s" and "0 \<le> maxDisplacement s"
  shows "SpringPhysics_update s dt = update_steps s dt"
proof -
  have m: "mass s \<noteq> 0" using assms(1) by (rule within_range_mass)
  define h where "h = min dt (1 / 30)"
  define v1 where "v1 = add (velocity s) (multiply (claimed_acceleration s) h)"
  define v2 where "v2 = (if magnitude v1 > maxVelocity s
                         then multiply (normalize_vec v1) (maxVelocity s) else v1)"
  define q1 where "q1 = add (position s) (multiply v2 h)"
  define cd where "cd = subtract q1 (target s)"
  define q2 where "q2 = (if magnitude cd > maxDisplacement s
                         then add (target s) (multiply (normalize_vec cd) (maxDisplacement s))
                         else q1)"
  have code: "SpringPhysics_update s dt = (s\<lparr>velocity := v2, position := q2\<rparr>, q2)"
    by (simp only: SpringPhysics_update_def Let_def acceleration_claimed [OF m]
        q2_def cd_def q1_def v2_def v1_def h_def)
  have v1_eq: "v1 = integrated_velocity s dt"
    by (simp add: v1_def integrated_velocity_def add_def multiply_def h_def)
  have v2_eq: "v2 = clamped_velocity s dt"
    by (simp only: v2_def clamped_velocity_def v1_eq rescaled_eq)
  have q1_eq: "q1 = moved_position s dt"
    by (simp add: q1_def moved_position_def v2_eq add_def multiply_def h_def)
  have cd_eq: "cd = displacement_from_target s dt"
    by (simp add: cd_def displacement_from_target_def q1_eq subtract_def)
  have q2_eq: "q2 = anchored_position s dt"
    by (simp add: q2_def anchored_position_def cd_eq q1_eq rescaled_eq add_def)
  show ?thesis
    by (simp only: code update_steps_def v2_eq q2_eq)
qed

theorem update_performs_steps_witness:
  "within_range (SpringPhysics_setTarget (SpringPhysics_new default_spring_config) (Vector2D 100 0))
     (1 / 60) \<and>
   0 \<le> maxVelocity (SpringPhysics_setTarget (SpringPhysics_new default_spring_config) (Vector2D 100 0)) \<and>
   0 \<le> maxDisplacement (SpringPhysics_setTarget (SpringPhysics_new default_spring_config) (Vector2D 100 0)) \<and>
   SpringPhysics_update
     (SpringPhysics_setTarget (SpringPhysics_new default_spring_config) (Vector2D 100 0)) (1 / 60)
   = ((SpringPhysics_setTarget (SpringPhysics_new default_spring_config) (Vector2D 100 0))
        \<lparr>velocity := Vector2D 250 0, position := Vector2D (25 / 6) 0\<rparr>, Vector2D (25 / 6) 0)"
proof -
  let ?s = "SpringPhysics_setTarget (SpringPhysics_new default_spring_config) (Vector2D 100 0)"
  have r: "within_range ?s (1 / 60)" by (rule default_spring_in_range)
  have v: "0 \<le> maxVelocity ?s" and d: "0 \<le> maxDisplacement ?s"
    by (simp_all add: SpringPhysics_setTarget_def default_spring)
  have "SpringPhysics_update ?s (1 / 60) = update_steps ?s (1 / 60)"
    by (rule update_performs_steps [OF r v d])
  then have e: "SpringPhysics_update ?s (1 / 60)
        = (?s\<lparr>velocity := Vector2D 250 0, position := Vector2D (25 / 6) 0\<rparr>, Vector2D (25 / 6) 0)"
    by (simp only: moving_spring_steps)
  from r v d e show ?thesis by (intro conjI)
qed

lemma negative_rails_spring_eq:
  "negative_rails_spring =
     \<lparr>stiffness = 150, damping = 12, mass = 1, position = Vector2D 0 0,
      velocity = Vector2D 0 0, target = Vector2D 0 0, maxVelocity = - 1,
      maxDisplacement = - 1\<rparr>"
  by (simp add: negative_rails_spring_def SpringPhysics_new_def default_spring_config_def
      nullish_def Let_def)

lemma negative_rails_moved:
  "SpringPhysics_update (SpringPhysics_setTarget negative_rails_spring (Vector2D 100 0)) (1 / 60)
   = ((SpringPhysics_setTarget negative_rails_spring (Vector2D 100 0))
        \<lparr>velocity := Vector2D (- 1) 0, position := Vector2D 101 0\<rparr>, Vector2D 101 0)"
  by (simp add: SpringPhysics_update_def SpringPhysics_setTarget_def negative_rails_spring_eq
      Let_def subtract_def add_def multiply_def divide_vec_def normalize_vec_def magnitude_def
      sqrt_62500 sqrt_6001_60)

lemma negative_rails_integrated:
  "integrated_velocity (SpringPhysics_setTarget negative_rails_spring (Vector2D 100 0)) (1 / 60)
   = Vector2D 250 0"
  by (simp add: integrated_velocity_def claimed_acceleration_def SpringPhysics_setTarget_def
      negative_rails_spring_eq)

text \<open>
  With \<open>maxVelocity = -1\<close> and \<open>maxDisplacement = -1\<close>, which the constructor accepts,
  and the target moved to (100, 0): the velocity after the third step is (250, 0), above
  the rail, and \<open>update(1/60)\<close> leaves the velocity (-1, 0). Its magnitude is 1, not
  \<open>maxVelocity\<close>, and its direction is the opposite one.
\<close>

theorem negative_rail_reverses_velocity_counterexample:
  "magnitude (integrated_velocity
       (SpringPhysics_setTarget negative_rails_spring (Vector2D 100 0)) (1 / 60))
     > maxVelocity (SpringPhysics_setTarget negative_rails_spring (Vector2D 100 0)) \<and>
   velocity (fst (SpringPhysics_update
       (SpringPhysics_setTarget negative_rails_spring (Vector2D 100 0)) (1 / 60)))
     = Vector2D (- 1) 0 \<and>
   magnitude (velocity (fst (SpringPhysics_update
       (SpringPhysics_setTarget negative_rails_spring (Vector2D 100 0)) (1 / 60))))
     \<noteq> maxVelocity (SpringPhysics_setTarget negative_rails_spring (Vector2D 100 0)) \<and>
   dot (velocity (fst (SpringPhysics_update
          (SpringPhysics_setTarget negative_rails_spring (Vector2D 100 0)) (1 / 60))))
       (integrated_velocity
          (SpringPhysics_setTarget negative_rails_spring (Vector2D 100 0)) (1 / 60))
     < 0"
proof -
  let ?s = "SpringPhysics_setTarget negative_rails_spring (Vector2D 100 0)"
  have u: "velocity (fst (SpringPhysics_update ?s (1 / 60))) = Vector2D (- 1) 0"
    by (simp add: negative_rails_moved)
  have i: "integrated_velocity ?s (1 / 60) = Vector2D 250 0"
    by (rule negative_rails_integrated)
  have r: "maxVelocity ?s = - 1"
    by (simp add: SpringPhysics_setTarget_def negative_rails_spring_eq)
  show ?thesis
    unfolding u i r by (simp add: magnitude_def dot_def sqrt_62500)
qed

text \<open>
  In exact arithmetic a rescaled vector has the magnitude of its rail
  (\<open>rescaled_meaning\<close>). The program rounds every quotient and product. For the default
  spring (rails 2000 and 500) with the target moved to (1000, 1000), \<^verbatim>\<open>update(1/32)\<close>
  leaves the velocity \<open>(a, a)\<close> with \<open>a = 3109888511975475 / 2 ^ 41\<close> and the position
  \<open>(p, p)\<close> with \<open>p = 5686204510232525 / 2 ^ 43\<close>, the binary64 values
  1414.213562373095 and 646.4466094067262. Both magnitudes are above their rails.
\<close>

lemma binary64_clamp_above_rails:
  "magnitude (Vector2D (3109888511975475 / 2 ^ 41) (3109888511975475 / 2 ^ 41)) > 2000 \<and>
   magnitude (subtract (Vector2D (5686204510232525 / 2 ^ 43) (5686204510232525 / 2 ^ 43))
                       (Vector2D 1000 1000)) > 500"
proof -
  have "(2000::real)\<^sup>2
        < 3109888511975475 / 2 ^ 41 * (3109888511975475 / 2 ^ 41)
          + 3109888511975475 / 2 ^ 41 * (3109888511975475 / 2 ^ 41)"
    by (simp add: power2_eq_square)
  then have v: "magnitude (Vector2D (3109888511975475 / 2 ^ 41) (3109888511975475 / 2 ^ 41)) > 2000"
    unfolding magnitude_def Vector2D.sel by (rule real_less_rsqrt)
  have "(500::real)\<^sup>2
        < (5686204510232525 / 2 ^ 43 - 1000) * (5686204510232525 / 2 ^ 43 - 1000)
          + (5686204510232525 / 2 ^ 43 - 1000) * (5686204510232525 / 2 ^ 43 - 1000)"
    by (simp add: power2_eq_square)
  then have d: "magnitude (subtract (Vector2D (5686204510232525 / 2 ^ 43) (5686204510232525 / 2 ^ 43))
                       (Vector2D 1000 1000)) > 500"
    unfolding magnitude_def subtract_def Vector2D.sel by (rule real_less_rsqrt)
  from v d show ?thesis by (rule conjI)
qed

lemma update_at_rest:
  assumes "position s = target s" and "velocity s = Vector2D 0 0"
  shows "SpringPhysics_update s dt = (s, position s)"
proof -
  have d: "subtract t t = Vector2D 0 0" for t
    by (simp add: subtract_def)
  have m: "multiply (Vector2D 0 0) k = Vector2D 0 0" for k
    by (simp add: multiply_def)
  have a: "add u (Vector2D 0 0) = u" for u
    by (cases u) (simp add: add_def)
  have dv: "divide_vec (Vector2D 0 0) k = Vector2D 0 0" for k
    by (simp add: divide_vec_def)
  have n: "normalize_vec (Vector2D 0 0) = Vector2D 0 0"
    by (simp add: normalize_vec_def magnitude_def)
  have "SpringPhysics_update s dt =
        (s\<lparr>velocity := Vector2D 0 0, position := target s\<rparr>, target s)"
    by (simp add: SpringPhysics_update_def Let_def assms d m a dv n)
  also have "s\<lparr>velocity := Vector2D 0 0, position := target s\<rparr> = s"
    by (simp add: assms [symmetric])
  finally show ?thesis
    by (simp add: assms)
qed

text \<open>
  Claim C9. For every spring whose target equals its position and whose velocity is zero,
  any sequence of \<open>update(dt)\<close> calls, for any values of \<open>dt\<close>, leaves the whole state
  as it was: position, velocity and target do not drift.
\<close>

theorem rest_is_fixed_point:
  assumes "position s = target s" and "velocity s = Vector2D 0 0"
  shows "run_updates s dts = s"
  using assms by (induction dts) (simp_all add: update_at_rest)

theorem rest_is_fixed_point_witness:
  "position (SpringPhysics_new default_spring_config)
     = target (SpringPhysics_new default_spring_config) \<and>
   velocity (SpringPhysics_new default_spring_config) = Vector2D 0 0 \<and>
   run_updates (SpringPhysics_new default_spring_config) [1 / 60, 5, - 1]
     = SpringPhysics_new default_spring_config"
proof -
  have h1: "position (SpringPhysics_new default_spring_config)
              = target (SpringPhysics_new default_spring_config)"
    and h2: "velocity (SpringPhysics_new default_spring_config) = Vector2D 0 0"
    by (simp_all add: default_spring)
  from h1 h2 rest_is_fixed_point [OF h1 h2, of "[1 / 60, 5, - 1]"]
  show ?thesis by (intro conjI)
qed

lemma applyImpulse_zero_mass:
  "mass s = 0 \<Longrightarrow> SpringPhysics_applyImpulse s impulse = s"
  by (cases "velocity s") (simp add: SpringPhysics_applyImpulse_def divide_vec_def add_def)

text \<open>
  Claim C10. For every spring state (of non-zero mass, as the data model has it) and every
  impulse, \<open>applyImpulse(impulse)\<close> sets the velocity to velocity plus impulse divided by
  mass and leaves position and target as they were. The result is not clamped: there are
  a state within its velocity rail and an impulse after which the velocity's magnitude is
  strictly above \<open>maxVelocity\<close>.
\<close>

theorem applyImpulse_unclamped:
  "(mass s \<noteq> 0 \<longrightarrow>
      SpringPhysics_applyImpulse s impulse
        = s\<lparr>velocity := Vector2D (x_of (velocity s) + x_of impulse / mass s)
                                 (y_of (velocity s) + y_of impulse / mass s)\<rparr>) \<and>
   position (SpringPhysics_applyImpulse s impulse) = position s \<and>
   target (SpringPhysics_applyImpulse s impulse) = target s \<and>
   (\<exists>s0 imp. mass s0 \<noteq> 0 \<and> magnitude (velocity s0) \<le> maxVelocity s0 \<and>
      magnitude (velocity (SpringPhysics_applyImpulse s0 imp))
        > maxVelocity (SpringPhysics_applyImpulse s0 imp))"
proof -
  let ?s0 = "SpringPhysics_new default_spring_config"
  have a: "mass s \<noteq> 0 \<longrightarrow>
      SpringPhysics_applyImpulse s impulse
        = s\<lparr>velocity := Vector2D (x_of (velocity s) + x_of impulse / mass s)
                                 (y_of (velocity s) + y_of impulse / mass s)\<rparr>"
    by (simp add: SpringPhysics_applyImpulse_def add_def divide_vec_def)
  have b: "position (SpringPhysics_applyImpulse s impulse) = position s"
    "target (SpringPhysics_applyImpulse s impulse) = target s"
    by (simp_all add: SpringPhysics_applyImpulse_def)
  have v: "velocity (SpringPhysics_applyImpulse ?s0 (Vector2D 3000 0)) = Vector2D 3000 0"
    by (simp add: SpringPhysics_applyImpulse_def default_spring add_def divide_vec_def)
  have "(2000::real)\<^sup>2 < 3000 * 3000 + 0 * 0" by (simp add: power2_eq_square)
  then have "2000 < magnitude (Vector2D 3000 0)"
    unfolding magnitude_def Vector2D.sel by (rule real_less_rsqrt)
  moreover have "maxVelocity (SpringPhysics_applyImpulse ?s0 (Vector2D 3000 0)) = 2000"
    "mass ?s0 \<noteq> 0" "magnitude (velocity ?s0) \<le> maxVelocity ?s0"
    by (simp_all add: SpringPhysics_applyImpulse_def default_spring magnitude_def)
  ultimately have "mass ?s0 \<noteq> 0 \<and> magnitude (velocity ?s0) \<le> maxVelocity ?s0 \<and>
      magnitude (velocity (SpringPhysics_applyImpulse ?s0 (Vector2D 3000 0)))
        > maxVelocity (SpringPhysics_applyImpulse ?s0 (Vector2D 3000 0))"
    by (simp add: v)
  then have "\<exists>s0 imp. mass s0 \<noteq> 0 \<and> magnitude (velocity s0) \<le> maxVelocity s0 \<and>
      magnitude (velocity (SpringPhysics_applyImpulse s0 imp))
        > maxVelocity (SpringPhysics_applyImpulse s0 imp)"
    by blast
  with a b show ?thesis by blast
qed

theorem applyImpulse_unclamped_witness:
  "mass (SpringPhysics_new default_spring_config) \<noteq> 0 \<and>
   SpringPhysics_applyImpulse (SpringPhysics_new default_spring_config) (Vector2D 3000 0)
     = (SpringPhysics_new default_spring_config)\<lparr>velocity := Vector2D 3000 0\<rparr>"
proof -
  have h: "mass (SpringPhysics_new default_spring_config) \<noteq> 0"
    by (simp add: default_spring)
  show ?thesis
    using h applyImpulse_unclamped [of "SpringPhysics_new default_spring_config" "Vector2D 3000 0"]
    by (simp add: default_spring)
qed

section \<open>The interactive curve\<close>

text \<open>
  Claim C6. For every InteractiveBezier and every offset \<open>o\<close>, \<open>setInputOffset(o)\<close>
  sets the target of point 1's spring to \<open>basePosition1 + influence1 * o\<close> and the target
  of point 2's spring to \<open>basePosition2 + influence2 * (-0.6 * o)\<close>, and leaves the position
  and the velocity of both springs as they were.
\<close>

theorem setInputOffset_targets:
  "target (spring (springP1 (InteractiveBezier_setInputOffset b off)))
     = Vector2D (x_of (basePosition (springP1 b)) + influence (springP1 b) * x_of off)
                (y_of (basePosition (springP1 b)) + influence (springP1 b) * y_of off) \<and>
   target (spring (springP2 (InteractiveBezier_setInputOffset b off)))
     = Vector2D (x_of (basePosition (springP2 b)) + influence (springP2 b) * (- 0.6 * x_of off))
                (y_of (basePosition (springP2 b)) + influence (springP2 b) * (- 0.6 * y_of off)) \<and>
   position (spring (springP1 (InteractiveBezier_setInputOffset b off)))
     = position (spring (springP1 b)) \<and>
   velocity (spring (springP1 (InteractiveBezier_setInputOffset b off)))
     = velocity (spring (springP1 b)) \<and>
   position (spring (springP2 (InteractiveBezier_setInputOffset b off)))
     = position (spring (springP2 b)) \<and>
   velocity (spring (springP2 (InteractiveBezier_setInputOffset b off)))
     = velocity (spring (springP2 b))"
  by (simp add: InteractiveBezier_setInputOffset_def SpringPoint_setInputOffset_def
      SpringPhysics_setTarget_def Let_def add_def multiply_def)

text \<open>
  Claim C3, as the code has it. For every InteractiveBezier of non-zero width \<open>w1\<close> and
  height \<open>h1\<close>, \<open>resize(w2, h2)\<close> stores the new dimensions and multiplies the x
  coordinate by \<open>w2 / w1\<close> and the y coordinate by \<open>h2 / h1\<close> in the endpoints
  \<open>p0\<close> and \<open>p3\<close> that \<open>getCurve()\<close> exposes and in the base positions of both
  springs. It leaves both springs as they were, so the control points \<open>p1\<close> and \<open>p2\<close>
  that \<open>getCurve()\<close> exposes, the live spring positions, are unchanged.
\<close>

theorem resize_scales_endpoints_and_bases:
  assumes "width b \<noteq> 0" and "height b \<noteq> 0"
  shows "\<exists>b'. InteractiveBezier_resize b w2 h2 = Some b' \<and>
           width b' = w2 \<and> height b' = h2 \<and>
           p0 (getCurve b') = Vector2D (x_of (p0 (getCurve b)) * (w2 / width b))
                                       (y_of (p0 (getCurve b)) * (h2 / height b)) \<and>
           p3 (getCurve b') = Vector2D (x_of (p3 (getCurve b)) * (w2 / width b))
                                       (y_of (p3 (getCurve b)) * (h2 / height b)) \<and>
           basePosition (springP1 b') =
             Vector2D (x_of (basePosition (springP1 b)) * (w2 / width b))
                      (y_of (basePosition (springP1 b)) * (h2 / height b)) \<and>
           basePosition (springP2 b') =
             Vector2D (x_of (basePosition (springP2 b)) * (w2 / width b))
                      (y_of (basePosition (springP2 b)) * (h2 / height b)) \<and>
           spring (springP1 b') = spring (springP1 b) \<and>
           spring (springP2 b') = spring (springP2 b) \<and>
           p1 (getCurve b') = p1 (getCurve b) \<and>
           p2 (getCurve b') = p2 (getCurve b)"
  using assms
  by (simp add: InteractiveBezier_resize_def js_div_def getCurve_def
      SpringPoint_setBasePosition_def)

lemma resize_zero_dimension:
  "width b = 0 \<or> height b = 0 \<Longrightarrow> InteractiveBezier_resize b w h = None"
  by (auto simp add: InteractiveBezier_resize_def js_div_def split: jsnum.splits)

lemma default_bezier_dims:
  "width (InteractiveBezier_new default_bezier_config 0) = 800 \<and>
   height (InteractiveBezier_new default_bezier_config 0) = 600"
  by (simp add: InteractiveBezier_new_def default_bezier_config_def falsy_or_def Let_def)

lemma default_bezier_p1:
  "p1 (getCurve (InteractiveBezier_new default_bezier_config 0)) = Vector2D 264 150"
  by (simp add: InteractiveBezier_new_def default_bezier_config_def falsy_or_def Let_def
      getCurve_def SpringPoint_new_def SpringPhysics_new_def nullish_def)

theorem resize_scales_endpoints_and_bases_witness:
  "width (InteractiveBezier_new default_bezier_config 0) \<noteq> 0 \<and>
   height (InteractiveBezier_new default_bezier_config 0) \<noteq> 0 \<and>
   (\<exists>b'. InteractiveBezier_resize (InteractiveBezier_new default_bezier_config 0) 400 300 = Some b' \<and>
      width b' = 400 \<and> height b' = 300 \<and>
      p0 (getCurve b') = Vector2D 50 150 \<and>
      p3 (getCurve b') = Vector2D 350 150 \<and>
      basePosition (springP1 b') = Vector2D 132 75 \<and>
      p1 (getCurve b') = Vector2D 264 150)"
proof -
  let ?b = "InteractiveBezier_new default_bezier_config 0"
  have w: "width ?b \<noteq> 0" and h: "height ?b \<noteq> 0"
    by (simp_all add: default_bezier_dims)
  have e: "p0 (getCurve ?b) = Vector2D 100 300" "p3 (getCurve ?b) = Vector2D 700 300"
    "basePosition (springP1 ?b) = Vector2D 264 150"
    by (simp_all add: InteractiveBezier_new_def default_bezier_config_def falsy_or_def Let_def
        getCurve_def SpringPoint_new_def nullish_def)
  from resize_scales_endpoints_and_bases [OF w h, of 400 300]
  obtain b' where "InteractiveBezier_resize ?b 400 300 = Some b'"
    "width b' = 400" "height b' = 300"
    "p0 (getCurve b') = Vector2D (x_of (p0 (getCurve ?b)) * (400 / width ?b))
                                       (y_of (p0 (getCurve ?b)) * (300 / height ?b))"
    "p3 (getCurve b') = Vector2D (x_of (p3 (getCurve ?b)) * (400 / width ?b))
                                       (y_of (p3 (getCurve ?b)) * (300 / height ?b))"
    "basePosition (springP1 b') =
             Vector2D (x_of (basePosition (springP1 ?b)) * (400 / width ?b))
                      (y_of (basePosition (springP1 ?b)) * (300 / height ?b))"
    "p1 (getCurve b') = p1 (getCurve ?b)"
    by blast
  then show ?thesis
    using w h by (simp add: e default_bezier_dims default_bezier_p1)
qed

text \<open>
  The curve built with the default 800 by 600 and resized to 400 by 300: its control
  point \<open>p1\<close> is (264, 150) before and after. The claim's value is (132, 75), further
  away than the epsilon of \<^verbatim>\<open>equals\<close>.
\<close>

theorem resize_leaves_spring_positions_counterexample:
  "map_option (p1 \<circ> getCurve)
     (InteractiveBezier_resize (InteractiveBezier_new default_bezier_config 0) 400 300)
     = Some (Vector2D 264 150) \<and>
   Vector2D
     (x_of (p1 (getCurve (InteractiveBezier_new default_bezier_config 0)))
        * (400 / width (InteractiveBezier_new default_bezier_config 0)))
     (y_of (p1 (getCurve (InteractiveBezier_new default_bezier_config 0)))
        * (300 / height (InteractiveBezier_new default_bezier_config 0)))
     = Vector2D 132 75 \<and>
   \<not> equals_vec (Vector2D 264 150) (Vector2D 132 75) 0.0001"
proof -
  let ?b = "InteractiveBezier_new default_bezier_config 0"
  have "map_option (p1 \<circ> getCurve) (InteractiveBezier_resize ?b 400 300)
        = Some (p1 (getCurve ?b))"
    by (simp add: InteractiveBezier_resize_def js_div_def default_bezier_dims getCurve_def
        SpringPoint_setBasePosition_def)
  then show ?thesis
    by (simp add: default_bezier_p1 default_bezier_dims equals_vec_def)
qed

end
